theory Spec2Isabelle
  imports Main "HOL-Library.Sublist"
begin

section \<open>Strings of the page\<close>

text \<open>
  A JavaScript string is a sequence of UTF-16 code units. The model covers the strings
  whose code units lie in U+0000..U+00FF, one \<^typ>\<open>char\<close> for each code unit. On
  that range \<^verbatim>\<open>toLowerCase\<close> stays inside the range (A-Z and U+00C0..U+00DE
  without the multiplication sign U+00D7 move up by 32) and the white space that
  \<^verbatim>\<open>trim\<close> removes is TAB, LF, VT, FF, CR, SPACE and NBSP.
\<close>

definition lowerChar :: "char \<Rightarrow> char" where
  "lowerChar c =
     (let n = (of_char c :: nat)
      in if (65 \<le> n \<and> n \<le> 90) \<or> (192 \<le> n \<and> n \<le> 222 \<and> n \<noteq> 215)
         then char_of (n + 32) else c)"

definition toLowerCase :: "string \<Rightarrow> string" where
  "toLowerCase s = map lowerChar s"

definition isWhiteSpace :: "char \<Rightarrow> bool" where
  "isWhiteSpace c = ((of_char c :: nat) \<in> set [9, 10, 11, 12, 13, 32, 160])"

definition trim :: "string \<Rightarrow> string" where
  "trim s = rev (dropWhile isWhiteSpace (rev (dropWhile isWhiteSpace s)))"

text \<open>\<^verbatim>\<open>s.includes(t)\<close> on strings: \<open>t\<close> starts at some position of \<open>s\<close>.\<close>

fun str_includes :: "string \<Rightarrow> string \<Rightarrow> bool" where
  "str_includes [] t = (t = [])"
| "str_includes (c # cs) t = (prefix t (c # cs) \<or> str_includes cs t)"

text \<open>
  \<^verbatim>\<open>s.split(',')\<close>: the pieces between the commas, empty pieces kept; the
  result is never empty.
\<close>

fun split_comma :: "string \<Rightarrow> string list" where
  "split_comma [] = [[]]"
| "split_comma (c # cs) =
     (if c = CHR '','' then [] # split_comma cs
      else (case split_comma cs of [] \<Rightarrow> [[c]] | w # ws \<Rightarrow> (c # w) # ws))"

text \<open>The ASCII letters, as the names of attributes and of properties use them.\<close>

definition isAsciiUpper :: "char \<Rightarrow> bool" where
  "isAsciiUpper c = (65 \<le> (of_char c :: nat) \<and> (of_char c :: nat) \<le> 90)"

definition isAsciiLower :: "char \<Rightarrow> bool" where
  "isAsciiLower c = (97 \<le> (of_char c :: nat) \<and> (of_char c :: nat) \<le> 122)"

definition asciiLowerChar :: "char \<Rightarrow> char" where
  "asciiLowerChar c = (if isAsciiUpper c then char_of ((of_char c :: nat) + 32) else c)"

definition asciiUpperChar :: "char \<Rightarrow> char" where
  "asciiUpperChar c = (if isAsciiLower c then char_of ((of_char c :: nat) - 32) else c)"

definition asciiLower :: "string \<Rightarrow> string" where
  "asciiLower s = map asciiLowerChar s"

section \<open>Values\<close>

text \<open>
  The values a caller can store in the filters and the values the reads of an element
  give. The methods compare such values with strings and with \<^verbatim>\<open>null\<close> by
  \<^verbatim>\<open>===\<close> only, so every value that is neither undefined, null nor a string (a
  number, a boolean, an object) is an \<open>Other\<close>, its argument telling such values
  apart.
\<close>

datatype jsvalue = Undefined | Null | Str string | Other nat

text \<open>\<^verbatim>\<open>xs.includes(v)\<close> on an array of strings.\<close>

definition arr_includes :: "string list \<Rightarrow> jsvalue \<Rightarrow> bool" where
  "arr_includes xs v = (v \<in> set (map Str xs))"

section \<open>Course cards and the filter object\<close>

text \<open>
  A course is an element of the page, in an HTML document. The code reads its
  \<^verbatim>\<open>data-*\<close> attributes, the text of its \<^verbatim>\<open>.course-title\<close> and
  \<^verbatim>\<open>.course-description\<close> descendants (\<open>None\<close> when
  \<^verbatim>\<open>querySelector\<close> finds none) and compares elements by identity;
  \<open>node\<close> is that identity. \<open>attrs\<close> lists the \<^verbatim>\<open>data-*\<close> attributes
  by the name that follows \<^verbatim>\<open>data-\<close>.
\<close>

record course =
  node :: nat
  attrs :: "(string \<times> string) list"
  title :: "string option"
  description :: "string option"

text \<open>
  \<^verbatim>\<open>course.dataset[name]\<close>. The properties of \<^verbatim>\<open>dataset\<close> are the
  attributes whose name has no ASCII upper-case letter, each under its name with
  every hyphen that an ASCII lower-case letter follows removed and that letter in
  upper case.
\<close>

fun camelCase :: "string \<Rightarrow> string" where
  "camelCase (a # b # cs) =
     (if a = CHR ''-'' \<and> isAsciiLower b then asciiUpperChar b # camelCase cs
      else a # camelCase (b # cs))"
| "camelCase cs = cs"



definition dataset :: "course \<Rightarrow> string \<Rightarrow> jsvalue" where
  "dataset c name =
     (case map_of (map (\<lambda>(k, v). (camelCase k, v))
                     (filter (\<lambda>(k, v). \<not> list_ex isAsciiUpper k) (attrs c))) name of
        None \<Rightarrow> Undefined
      | Some v \<Rightarrow> Str v)"

text \<open>
  \<^verbatim>\<open>course.getAttribute(`data-${name}`)\<close>: the argument is put in ASCII lower
  case, and a missing attribute reads as null.
\<close>

definition getAttribute_data :: "course \<Rightarrow> string \<Rightarrow> jsvalue" where
  "getAttribute_data c name =
     (case map_of (attrs c) (asciiLower name) of None \<Rightarrow> Null | Some v \<Rightarrow> Str v)"

text \<open>
  Line 157: \<^verbatim>\<open>a || b\<close> is \<open>b\<close> when \<open>a\<close> is undefined or the empty
  string.
\<close>

definition courseValue :: "course \<Rightarrow> string \<Rightarrow> jsvalue" where
  "courseValue c filterType =
     (case dataset c filterType of
        Str v \<Rightarrow> if v = [] then getAttribute_data c filterType else Str v
      | other \<Rightarrow> getAttribute_data c filterType)"

text \<open>
  \<^verbatim>\<open>this.filters\<close> is an object with string keys, kept as the list of its
  entries in the order of \<^verbatim>\<open>Object.entries\<close>: the keys that are array indices
  first, ascending, then the other keys in the order of their creation. \<open>cards\<close> and
  \<open>searchInput\<close> are the two parts of the document the methods read or write: the
  elements that match the course selector, in document order, and the value of
  \<^verbatim>\<open>.course-search-input\<close> (\<open>None\<close> when the page has no such input).
\<close>

record courseFilter =
  filters :: "(string \<times> jsvalue) list"
  courses :: "course list"
  filteredCourses :: "course list"
  cards :: "course list"
  searchInput :: "string option"

text \<open>
  An array index is the decimal numeral, without leading zeros, of a number below
  \<open>2\<^sup>3\<^sup>2 - 1\<close>.
\<close>

definition isDigit :: "char \<Rightarrow> bool" where
  "isDigit c = (48 \<le> (of_char c :: nat) \<and> (of_char c :: nat) \<le> 57)"

definition indexValue :: "string \<Rightarrow> int" where
  "indexValue key = foldl (\<lambda>n c. 10 * n + ((of_char c :: int) - 48)) 0 key"

definition isArrayIndex :: "string \<Rightarrow> bool" where
  "isArrayIndex key =
     (key \<noteq> [] \<and> list_all isDigit key \<and> (key = ''0'' \<or> hd key \<noteq> CHR ''0'')
      \<and> indexValue key < 4294967295)"

text \<open>
  \<^verbatim>\<open>obj[key] = value\<close> on an object that inherits from
  \<^verbatim>\<open>Object.prototype\<close>. An own key keeps its place. A new key that is an array
  index goes before the first key that is no smaller array index, any other new key
  goes last. The key \<^verbatim>\<open>__proto__\<close> is the inherited accessor and never
  becomes an own key; the entries stay as they are (a null or an object stored under
  it replaces the prototype, which the model does not follow).
\<close>

definition insertIndex :: "(string \<times> jsvalue) list \<Rightarrow> string \<Rightarrow> jsvalue \<Rightarrow> (string \<times> jsvalue) list" where
  "insertIndex obj key v =
     takeWhile (\<lambda>(k, w). isArrayIndex k \<and> indexValue k < indexValue key) obj
       @ [(key, v)]
       @ dropWhile (\<lambda>(k, w). isArrayIndex k \<and> indexValue k < indexValue key) obj"

definition setProp :: "(string \<times> jsvalue) list \<Rightarrow> string \<Rightarrow> jsvalue \<Rightarrow> (string \<times> jsvalue) list" where
  "setProp obj key v =
     (if key = ''__proto__'' then obj
      else if key \<in> set (map fst obj) then map (\<lambda>(k, w). if k = key then (k, v) else (k, w)) obj
      else if isArrayIndex key then insertIndex obj key v
      else obj @ [(key, v)])"

text \<open>
  \<^verbatim>\<open>Object.assign(target, source)\<close>, the source given by its own entries.
\<close>

definition assign :: "(string \<times> jsvalue) list \<Rightarrow> (string \<times> jsvalue) list \<Rightarrow> (string \<times> jsvalue) list" where
  "assign target source = fold (\<lambda>(k, v) obj. setProp obj k v) source target"

section \<open>The methods of CourseFilter\<close>

text \<open>The callback of \<^verbatim>\<open>every\<close> in \<^verbatim>\<open>applyFilters\<close> (lines 154-165).\<close>

definition filterEntry :: "course \<Rightarrow> string \<times> jsvalue \<Rightarrow> bool" where
  "filterEntry c e =
     (case e of (filterType, filterValue) \<Rightarrow>
        if filterValue = Str ''all'' then True
        else (case courseValue c filterType of
                Str v \<Rightarrow>
                  if v \<noteq> [] \<and> str_includes v '',''
                  then arr_includes (map trim (split_comma v)) filterValue
                  else Str v = filterValue
              | other \<Rightarrow> other = filterValue))"

definition passesFilters :: "(string \<times> jsvalue) list \<Rightarrow> course \<Rightarrow> bool" where
  "passesFilters fs c = list_all (filterEntry c) fs"

definition applyFilters :: "courseFilter \<Rightarrow> courseFilter" where
  "applyFilters s = s\<lparr>filteredCourses := filter (passesFilters (filters s)) (courses s)\<rparr>"

definition updateFilter :: "courseFilter \<Rightarrow> string \<Rightarrow> jsvalue \<Rightarrow> courseFilter" where
  "updateFilter s type v = applyFilters (s\<lparr>filters := setProp (filters s) type v\<rparr>)"

text \<open>
  \<^verbatim>\<open>renderCourses\<close>, \<^verbatim>\<open>updateActiveButtons\<close> and the announcements write
  styles, classes and text of the page only; they leave the five fields as they are.
\<close>

definition setFilters :: "courseFilter \<Rightarrow> (string \<times> jsvalue) list \<Rightarrow> courseFilter" where
  "setFilters s newFilters = applyFilters (s\<lparr>filters := assign (filters s) newFilters\<rparr>)"

text \<open>
  \<^verbatim>\<open>handleFilterClick\<close>: the two arguments are \<^verbatim>\<open>button.dataset.filter\<close>
  and \<^verbatim>\<open>button.dataset.value\<close>; a missing or empty one ends the call.
\<close>

definition handleFilterClick :: "courseFilter \<Rightarrow> string option \<Rightarrow> string option \<Rightarrow> courseFilter" where
  "handleFilterClick s filterType filterValue =
     (case filterType of
        None \<Rightarrow> s
      | Some t \<Rightarrow>
          (case filterValue of
             None \<Rightarrow> s
           | Some v \<Rightarrow> if t = [] \<or> v = [] then s else updateFilter s t (Str v)))"

text \<open>
  The callback of \<^verbatim>\<open>filter\<close> in \<^verbatim>\<open>handleSearch\<close> (lines 178-184):
  \<open>lowerText\<close> is \<^verbatim>\<open>e?.textContent.toLowerCase() || ''\<close> and \<open>lowerTags\<close>
  is \<^verbatim>\<open>course.dataset.tags?.toLowerCase() || ''\<close>.
\<close>

definition lowerText :: "string option \<Rightarrow> string" where
  "lowerText t = (case t of None \<Rightarrow> [] | Some x \<Rightarrow> toLowerCase x)"

definition lowerTags :: "course \<Rightarrow> string" where
  "lowerTags c = (case dataset c ''tags'' of Str x \<Rightarrow> toLowerCase x | other \<Rightarrow> [])"

definition searchEntry :: "string \<Rightarrow> course \<Rightarrow> bool" where
  "searchEntry term c =
     (str_includes (lowerText (title c)) term
      \<or> str_includes (lowerText (description c)) term
      \<or> str_includes (lowerTags c) term)"

definition handleSearch :: "courseFilter \<Rightarrow> string \<Rightarrow> courseFilter" where
  "handleSearch s searchTerm =
     (let term = trim (toLowerCase searchTerm)
      in if term = [] then applyFilters s
         else s\<lparr>filteredCourses := filter (searchEntry term) (filteredCourses s)\<rparr>)"

text \<open>
  The listener of the search input (lines 67-72): the text typed is the value of the
  input, and once typing pauses \<^verbatim>\<open>handleSearch\<close> runs on it. A page without the
  input has no listener.
\<close>

definition onSearchInput :: "courseFilter \<Rightarrow> string \<Rightarrow> courseFilter" where
  "onSearchInput s text =
     (case searchInput s of
        None \<Rightarrow> s
      | Some old \<Rightarrow> handleSearch (s\<lparr>searchInput := Some text\<rparr>) text)"

definition loadCourses :: "courseFilter \<Rightarrow> courseFilter" where
  "loadCourses s = s\<lparr>courses := cards s, filteredCourses := cards s\<rparr>"

definition clearAllFilters :: "courseFilter \<Rightarrow> courseFilter" where
  "clearAllFilters s =
     s\<lparr>filters := map (\<lambda>(key, v). (key, Str ''all'')) (filters s),
       searchInput := (case searchInput s of None \<Rightarrow> None | Some old \<Rightarrow> Some []),
       filteredCourses := courses s\<rparr>"

definition destroy :: "courseFilter \<Rightarrow> courseFilter" where
  "destroy s = s\<lparr>courses := [], filteredCourses := []\<rparr>"

definition initialFilters :: "(string \<times> jsvalue) list" where
  "initialFilters =
     [(''level'', Str ''all''), (''language'', Str ''all''), (''format'', Str ''all''),
      (''schedule'', Str ''all''), (''price'', Str ''all'')]"

text \<open>The constructor, on a page with the given course cards and search input.\<close>

definition constructor :: "course list \<Rightarrow> string option \<Rightarrow> courseFilter" where
  "constructor page_cards input =
     loadCourses \<lparr>filters = initialFilters, courses = [], filteredCourses = [],
                  cards = page_cards, searchInput = input\<rparr>"

text \<open>The calls a page can make on the object, and a run of them.\<close>

datatype call =
    LoadCourses
  | UpdateFilter string jsvalue
  | SetFilters "(string \<times> jsvalue) list"
  | FilterClick "string option" "string option"
  | HandleSearch string
  | SearchInput string
  | ClearAllFilters
  | Destroy

fun step :: "courseFilter \<Rightarrow> call \<Rightarrow> courseFilter" where
  "step s LoadCourses = loadCourses s"
| "step s (UpdateFilter t v) = updateFilter s t v"
| "step s (SetFilters fs) = setFilters s fs"
| "step s (FilterClick t v) = handleFilterClick s t v"
| "step s (HandleSearch x) = handleSearch s x"
| "step s (SearchInput x) = onSearchInput s x"
| "step s ClearAllFilters = clearAllFilters s"
| "step s Destroy = destroy s"

definition run :: "courseFilter \<Rightarrow> call list \<Rightarrow> courseFilter" where
  "run s cs = foldl step s cs"

section \<open>The invariant and the dimension test as the specification words them\<close>

text \<open>
  The search term of the specification is the text of the search input, normalised as
  \<^verbatim>\<open>handleSearch\<close> normalises it; a page without the input has the empty term.
\<close>

definition currentTerm :: "courseFilter \<Rightarrow> string" where
  "currentTerm s = (case searchInput s of None \<Rightarrow> [] | Some x \<Rightarrow> trim (toLowerCase x))"

definition matchesSearchTerm :: "string \<Rightarrow> course \<Rightarrow> bool" where
  "matchesSearchTerm term c = (term = [] \<or> searchEntry term c)"

text \<open>
  The visible set of the specification's invariant: the items that match the filter
  state and the search term.
\<close>

definition visibleBySpec :: "courseFilter \<Rightarrow> course list" where
  "visibleBySpec s =
     filter (\<lambda>c. passesFilters (filters s) c \<and> matchesSearchTerm (currentTerm s) c) (courses s)"

text \<open>
  The test of one dimension as the specification states it: the value is all, or the
  attribute has a comma and the value is one of its trimmed pieces, or the attribute
  equals the value.
\<close>

definition claimedEntry :: "course \<Rightarrow> string \<times> jsvalue \<Rightarrow> bool" where
  "claimedEntry c e =
     (case e of (t, v) \<Rightarrow>
        v = Str ''all''
        \<or> (case courseValue c t of
              Str a \<Rightarrow>
                (CHR '','' \<in> set a \<and> v \<in> set (map Str (map trim (split_comma a)))) \<or> Str a = v
            | other \<Rightarrow> False))"

section \<open>Example pages\<close>

definition courseCard :: "nat \<Rightarrow> (string \<times> string) list \<Rightarrow> course" where
  "courseCard n as = \<lparr>node = n, attrs = as, title = None, description = None\<rparr>"

definition threeLevels :: "course list" where
  "threeLevels =
     [courseCard 0 [(''level'', ''beginner'')], courseCard 1 [(''level'', ''beginner'')],
      courseCard 2 [(''level'', ''advanced'')]]"

definition mixedLevels :: "course list" where
  "mixedLevels =
     [courseCard 0 [(''level'', ''beginner, intermediate'')],
      courseCard 1 [(''level'', ''advanced'')],
      courseCard 2 [],
      courseCard 3 [(''level'', [])]]"

definition englishCard :: course where
  "englishCard =
     \<lparr>node = 0, attrs = [(''level'', ''beginner'')], title = Some ''English for Beginners'',
      description = None\<rparr>"

definition spanishCard :: course where
  "spanishCard =
     \<lparr>node = 1, attrs = [(''level'', ''advanced'')], title = Some ''Spanish Conversation'',
      description = None\<rparr>"

definition english_business :: course where
  "english_business =
     \<lparr>node = 0, attrs = [(''tags'', ''english,business'')], title = None, description = None\<rparr>"

definition grammarCard :: course where
  "grammarCard =
     \<lparr>node = 0, attrs = [(''tags'', ''Grammar,WRITING'')], title = Some ''Deutsch A1'',
      description = Some ''Intensive COURSE''\<rparr>"

section \<open>Facts about the string and array helpers\<close>

lemma str_includes_sublist: "str_includes s t \<longleftrightarrow> sublist t s"
  by (induction s) (auto simp: sublist_Cons_right)

lemma str_includes_comma: "str_includes v '','' \<longleftrightarrow> CHR '','' \<in> set v"
  by (induction v) auto

lemma trim_lower_empty: "trim (toLowerCase []) = []"
  by (simp add: trim_def toLowerCase_def)

lemma subseq_count_list: "subseq xs ys \<Longrightarrow> count_list xs x \<le> count_list ys x"
  by (induction rule: list_emb.induct) auto

lemma subseq_subset: "subseq xs ys \<Longrightarrow> set xs \<subseteq> set ys"
  by (induction rule: list_emb.induct) auto



section \<open>Facts about the test of one filter entry\<close>

text \<open>
  For a name without upper-case letter and without hyphen, as the five names of the
  constructor are, both reads of line 157 are the attribute \<^verbatim>\<open>data-name\<close>.
\<close>

lemma asciiUpperChar_upper: "isAsciiLower b \<Longrightarrow> isAsciiUpper (asciiUpperChar b)"
  by (auto simp: isAsciiLower_def isAsciiUpper_def asciiUpperChar_def of_char_of)

lemma camelCase_lowercase:
  "camelCase k = t \<Longrightarrow> \<not> list_ex isAsciiUpper t \<Longrightarrow> k = t"
proof (induction k arbitrary: t rule: camelCase.induct)
  case (1 a b cs)
  show ?case
  proof (cases "a = CHR ''-'' \<and> isAsciiLower b")
    case True
    with "1.prems" asciiUpperChar_upper [of b] show ?thesis
      by auto
  next
    case False
    with "1.prems" "1.IH"(2) [of "camelCase (b # cs)"] show ?thesis
      by auto
  qed
qed auto

lemma camelCase_no_hyphen: "CHR ''-'' \<notin> set t \<Longrightarrow> camelCase t = t"
  by (induction t rule: camelCase.induct) auto

lemma asciiLower_lowercase: "\<not> list_ex isAsciiUpper t \<Longrightarrow> asciiLower t = t"
  by (induction t) (auto simp: asciiLower_def asciiLowerChar_def)

lemma map_of_camelCase:
  assumes lower: "\<not> list_ex isAsciiUpper t" and plain: "CHR ''-'' \<notin> set t"
  shows "map_of (map (\<lambda>(k, v). (camelCase k, v))
                  (filter (\<lambda>(k, v). \<not> list_ex isAsciiUpper k) as)) t
           = map_of as t"
proof (induction as)
  case Nil
  then show ?case by simp
next
  case (Cons p as)
  obtain k v where p: "p = (k, v)" by (cases p)
  show ?case
  proof (cases "k = t")
    case True
    with Cons p lower plain show ?thesis
      by (simp add: camelCase_no_hyphen)
  next
    case False
    with lower have "camelCase k \<noteq> t"
      using camelCase_lowercase by blast
    with Cons p False show ?thesis by simp
  qed
qed

lemma courseValue_plain_name:
  "\<not> list_ex isAsciiUpper t \<Longrightarrow> CHR ''-'' \<notin> set t \<Longrightarrow>
   courseValue c t = (case map_of (attrs c) t of None \<Rightarrow> Null | Some v \<Rightarrow> Str v)"
  by (simp add: courseValue_def dataset_def getAttribute_data_def map_of_camelCase
      asciiLower_lowercase split: option.splits)

lemma courseValue_dimensions:
  "t \<in> set (map fst initialFilters) \<Longrightarrow>
   courseValue c t = (case map_of (attrs c) t of None \<Rightarrow> Null | Some v \<Rightarrow> Str v)"
  by (rule courseValue_plain_name) (auto simp: initialFilters_def isAsciiUpper_def)


lemma filterEntry_cases:
  "filterEntry c (t, v) \<longleftrightarrow>
     v = Str ''all''
     \<or> (\<exists>a. courseValue c t = Str a \<and> CHR '','' \<in> set a
            \<and> v \<in> Str ` set (map trim (split_comma a)))
     \<or> (courseValue c t = v \<and> \<not> (\<exists>a. v = Str a \<and> CHR '','' \<in> set a))"
  by (cases "courseValue c t")
    (auto simp: filterEntry_def str_includes_comma arr_includes_def)

lemma filterEntry_split:
  "filterEntry c e \<longleftrightarrow>
     (case e of (t, v) \<Rightarrow>
        v = Str ''all''
        \<or> (\<exists>a. courseValue c t = Str a \<and> CHR '','' \<in> set a
               \<and> v \<in> Str ` set (map trim (split_comma a)))
        \<or> (courseValue c t = v \<and> \<not> (\<exists>a. v = Str a \<and> CHR '','' \<in> set a)))"
  by (cases e) (simp add: filterEntry_cases)

lemma passesFilters_all:
  "list_all (\<lambda>e. snd e = Str ''all'') fs \<Longrightarrow> passesFilters fs c"
  by (induction fs) (auto simp: passesFilters_def filterEntry_def)



lemma searchEntry_lowercase_substring:
  "searchEntry term c \<longleftrightarrow>
     term = []
     \<or> (\<exists>x. title c = Some x \<and> sublist term (toLowerCase x))
     \<or> (\<exists>x. description c = Some x \<and> sublist term (toLowerCase x))
     \<or> (\<exists>x. dataset c ''tags'' = Str x \<and> sublist term (toLowerCase x))"
  by (cases "title c"; cases "description c"; cases "dataset c ''tags''")
    (auto simp: searchEntry_def lowerText_def lowerTags_def str_includes_sublist)

section \<open>Facts about clearing\<close>

lemma clear_twice:
  "(\<lambda>(key, v). (key, Str ''all'')) \<circ> (\<lambda>(key :: string, v :: jsvalue). (key, Str ''all''))
     = (\<lambda>(key, v). (key, Str ''all''))"
  by (auto simp: fun_eq_iff)

lemma clear_all_values:
  "list_all (\<lambda>e. snd e = Str ''all'') (map (\<lambda>(key, v). (key, Str ''all'')) fs)"
  by (induction fs) auto

lemma clear_keys: "map fst (map (\<lambda>(key, v). (key, Str ''all'')) fs) = map fst fs"
  by (induction fs) auto

lemma clear_five:
  "map fst fs = map fst initialFilters \<Longrightarrow>
   map (\<lambda>(key, v). (key, Str ''all'')) fs = initialFilters"
  by (auto simp: initialFilters_def)

lemma currentTerm_clear: "currentTerm (clearAllFilters s) = []"
  by (simp add: currentTerm_def clearAllFilters_def trim_lower_empty split: option.splits)

section \<open>The filtered list is a sublist of the loaded courses\<close>

lemma step_subseq:
  "subseq (filteredCourses s) (courses s) \<Longrightarrow>
   subseq (filteredCourses (step s c)) (courses (step s c))"
proof (cases c)
  case (HandleSearch x)
  assume inv: "subseq (filteredCourses s) (courses s)"
  have "subseq (filter (searchEntry (trim (toLowerCase x))) (filteredCourses s)) (courses s)"
    using subseq_order.trans [OF subseq_filter_left inv] .
  then show ?thesis
    using HandleSearch by (simp add: handleSearch_def applyFilters_def Let_def)
next
  case (SearchInput x)
  assume inv: "subseq (filteredCourses s) (courses s)"
  have "subseq (filter (searchEntry (trim (toLowerCase x))) (filteredCourses s)) (courses s)"
    using subseq_order.trans [OF subseq_filter_left inv] .
  then show ?thesis
    using SearchInput inv
    by (simp add: onSearchInput_def handleSearch_def applyFilters_def Let_def split: option.splits)
qed (auto simp: loadCourses_def updateFilter_def setFilters_def handleFilterClick_def
      applyFilters_def clearAllFilters_def destroy_def split: option.splits)

lemma run_subseq:
  "subseq (filteredCourses s) (courses s) \<Longrightarrow>
   subseq (filteredCourses (run s cs)) (courses (run s cs))"
  unfolding run_def by (induction cs arbitrary: s) (auto intro: step_subseq)

lemma constructor_subseq:
  "subseq (filteredCourses (constructor page_cards input)) (courses (constructor page_cards input))"
  by (simp add: constructor_def loadCourses_def)

text \<open>
  Claim C9. After the constructor and any run of calls (load, filter updates, clicks,
  searches, clear, destroy), \<open>filteredCourses\<close> is a subsequence of \<open>courses\<close> in
  the order of \<open>courses\<close>: each of its elements is an element of \<open>courses\<close> and
  occurs in it at most as often as there.
\<close>

theorem filtered_subsequence_of_courses:
  "subseq (filteredCourses (run (constructor page_cards input) cs))
          (courses (run (constructor page_cards input) cs))
   \<and> set (filteredCourses (run (constructor page_cards input) cs))
       \<subseteq> set (courses (run (constructor page_cards input) cs))
   \<and> count_list (filteredCourses (run (constructor page_cards input) cs)) c
       \<le> count_list (courses (run (constructor page_cards input) cs)) c"
proof -
  have sub: "subseq (filteredCourses (run (constructor page_cards input) cs))
                    (courses (run (constructor page_cards input) cs))"
    by (rule run_subseq [OF constructor_subseq])
  from sub show ?thesis
    by (simp add: subseq_count_list subseq_subset)
qed

section \<open>Filtering by the dimensions\<close>

text \<open>
  Claim C8. On the page of three cards whose level attributes are beginner, beginner
  and advanced, setting the level to beginner leaves the first two cards, in their
  order on the page.
\<close>

theorem three_levels_beginner:
  "filteredCourses (updateFilter (constructor threeLevels input) ''level'' (Str ''beginner''))
     = [courseCard 0 [(''level'', ''beginner'')], courseCard 1 [(''level'', ''beginner'')]]"
  by (simp add: updateFilter_def constructor_def loadCourses_def applyFilters_def
      threeLevels_def passesFilters_def filterEntry_def courseValue_def dataset_def
      getAttribute_data_def courseCard_def initialFilters_def setProp_def asciiLower_def
      asciiLowerChar_def isAsciiUpper_def isAsciiLower_def)

text \<open>
  Claim C6. When every entry of the filters is all, recomputing keeps every course:
  \<open>applyFilters\<close>, and the search on the empty term that calls it, give the whole
  list \<open>courses\<close> in its order.
\<close>

theorem all_is_identity:
  "list_all (\<lambda>e. snd e = Str ''all'') (filters s) \<Longrightarrow>
     filteredCourses (applyFilters s) = courses s
     \<and> filteredCourses (handleSearch s []) = courses s"
  by (simp add: handleSearch_def trim_lower_empty applyFilters_def passesFilters_all)

theorem all_is_identity_witness:
  "list_all (\<lambda>e. snd e = Str ''all'') (filters (constructor threeLevels None))
   \<and> filteredCourses (applyFilters (constructor threeLevels None)) = threeLevels
   \<and> filteredCourses (handleSearch (constructor threeLevels None) []) = threeLevels"
proof -
  have h: "list_all (\<lambda>e. snd e = Str ''all'') (filters (constructor threeLevels None))"
    by (simp add: constructor_def loadCourses_def initialFilters_def)
  have c: "courses (constructor threeLevels None) = threeLevels"
    by (simp add: constructor_def loadCourses_def)
  show ?thesis using h all_is_identity [OF h] c by simp
qed

text \<open>
  Claim C3, as the specification states it, fails: a card whose level attribute is
  \<^verbatim>\<open>beginner,intermediate\<close> passes the stated test for the selected value
  \<^verbatim>\<open>beginner,intermediate\<close> (the attribute equals the value), and
  \<open>applyFilters\<close> drops it, because an attribute with a comma is only compared
  piece by piece.
\<close>

theorem comma_attribute_equal_to_value_dropped:
  "list_all (claimedEntry (courseCard 0 [(''level'', ''beginner,intermediate'')]))
     (filters (updateFilter (constructor [courseCard 0 [(''level'', ''beginner,intermediate'')]] None)
        ''level'' (Str ''beginner,intermediate'')))
   \<and> filteredCourses
       (updateFilter (constructor [courseCard 0 [(''level'', ''beginner,intermediate'')]] None)
          ''level'' (Str ''beginner,intermediate'')) = []"
  by code_simp

text \<open>
  Claim C3, amended. \<open>applyFilters\<close> keeps a course exactly when for each entry of
  the filters the value is all, or the attribute has a comma and the value is one of
  the pieces between its commas, each trimmed, or the attribute has no comma and
  equals the value.
\<close>

theorem applyFilters_keeps_exactly:
  "filteredCourses (applyFilters s) =
     filter (\<lambda>c. \<forall>(t, v) \<in> set (filters s).
                v = Str ''all''
                \<or> (\<exists>a. courseValue c t = Str a \<and> CHR '','' \<in> set a
                       \<and> v \<in> Str ` set (map trim (split_comma a)))
                \<or> (courseValue c t = v \<and> \<not> (\<exists>a. v = Str a \<and> CHR '','' \<in> set a)))
            (courses s)"
proof -
  have pf: "passesFilters (filters s) c \<longleftrightarrow>
          (\<forall>(t, v) \<in> set (filters s).
              v = Str ''all''
              \<or> (\<exists>a. courseValue c t = Str a \<and> CHR '','' \<in> set a
                     \<and> v \<in> Str ` set (map trim (split_comma a)))
              \<or> (courseValue c t = v \<and> \<not> (\<exists>a. v = Str a \<and> CHR '','' \<in> set a)))" for c
    unfolding passesFilters_def list_all_iff
    by (rule ball_cong [OF refl]) (rule filterEntry_split)
  have "filteredCourses (applyFilters s) = filter (passesFilters (filters s)) (courses s)"
    by (simp add: applyFilters_def)
  also have "\<dots> = filter (\<lambda>c. \<forall>(t, v) \<in> set (filters s).
                v = Str ''all''
                \<or> (\<exists>a. courseValue c t = Str a \<and> CHR '','' \<in> set a
                       \<and> v \<in> Str ` set (map trim (split_comma a)))
                \<or> (courseValue c t = v \<and> \<not> (\<exists>a. v = Str a \<and> CHR '','' \<in> set a)))
            (courses s)"
    by (rule filter_cong [OF refl]) (rule pf)
  finally show ?thesis .
qed

theorem applyFilters_keeps_exactly_witness:
  "filteredCourses (applyFilters (updateFilter (constructor mixedLevels None) ''level'' (Str ''intermediate'')))
     = [courseCard 0 [(''level'', ''beginner, intermediate'')]]
   \<and> filteredCourses (applyFilters (updateFilter (constructor mixedLevels None) ''level'' (Str ''advanced'')))
     = [courseCard 1 [(''level'', ''advanced'')]]"
proof -
  have a: "filter (\<lambda>c. \<forall>(t, v)
               \<in> set (filters (updateFilter (constructor mixedLevels None) ''level'' (Str ''intermediate''))).
                v = Str ''all''
                \<or> (\<exists>a. courseValue c t = Str a \<and> CHR '','' \<in> set a
                       \<and> v \<in> Str ` set (map trim (split_comma a)))
                \<or> (courseValue c t = v \<and> \<not> (\<exists>a. v = Str a \<and> CHR '','' \<in> set a)))
            (courses (updateFilter (constructor mixedLevels None) ''level'' (Str ''intermediate'')))
          = [courseCard 0 [(''level'', ''beginner, intermediate'')]]"
    by (simp add: updateFilter_def applyFilters_def constructor_def loadCourses_def
        initialFilters_def mixedLevels_def courseCard_def courseValue_def dataset_def
        getAttribute_data_def setProp_def asciiLower_def asciiLowerChar_def isAsciiUpper_def
        isAsciiLower_def trim_def isWhiteSpace_def)
  have b: "filter (\<lambda>c. \<forall>(t, v)
               \<in> set (filters (updateFilter (constructor mixedLevels None) ''level'' (Str ''advanced''))).
                v = Str ''all''
                \<or> (\<exists>a. courseValue c t = Str a \<and> CHR '','' \<in> set a
                       \<and> v \<in> Str ` set (map trim (split_comma a)))
                \<or> (courseValue c t = v \<and> \<not> (\<exists>a. v = Str a \<and> CHR '','' \<in> set a)))
            (courses (updateFilter (constructor mixedLevels None) ''level'' (Str ''advanced'')))
          = [courseCard 1 [(''level'', ''advanced'')]]"
    by (simp add: updateFilter_def applyFilters_def constructor_def loadCourses_def
        initialFilters_def mixedLevels_def courseCard_def courseValue_def dataset_def
        getAttribute_data_def setProp_def asciiLower_def asciiLowerChar_def isAsciiUpper_def
        isAsciiLower_def trim_def isWhiteSpace_def)
  show ?thesis
    using applyFilters_keeps_exactly
            [of "updateFilter (constructor mixedLevels None) ''level'' (Str ''intermediate'')"]
          applyFilters_keeps_exactly
            [of "updateFilter (constructor mixedLevels None) ''level'' (Str ''advanced'')"]
    by (simp only: a b simp_thms)
qed







section \<open>Searching\<close>

text \<open>
  Claim C7. The empty search term is no search constraint: \<open>handleSearch\<close> on it
  recomputes the list from all the courses with the filters alone.
\<close>

theorem empty_search_is_no_constraint:
  "handleSearch s [] = applyFilters s
   \<and> filteredCourses (handleSearch s []) = filter (passesFilters (filters s)) (courses s)"
  by (simp add: handleSearch_def trim_lower_empty applyFilters_def)

text \<open>
  Claim C4. The test of the search is that the term is a substring of the title, of
  the description or of the tags of the card, each put in lower case; a card without
  all three is found by the empty term only. For every search term,
  \<open>handleSearch\<close> puts the term in lower case, trims it and keeps the courses that
  pass the test: those of the filtered list when something is left of the term, those
  of the recomputed list when nothing is. The card with the tags
  \<^verbatim>\<open>english,business\<close> is found by \<^verbatim>\<open>bus\<close> and not by
  \<^verbatim>\<open>span\<close>; a card titled \<^verbatim>\<open>Deutsch A1\<close>, described as
  \<^verbatim>\<open>Intensive COURSE\<close> and tagged \<^verbatim>\<open>Grammar,WRITING\<close> is found by
  \<^verbatim>\<open>deutsch\<close>, \<^verbatim>\<open>Course\<close> and \<^verbatim>\<open>WRITING\<close>.
\<close>

theorem search_is_lowercase_substring:
  "(searchEntry term c \<longleftrightarrow>
      term = []
      \<or> (\<exists>x. title c = Some x \<and> sublist term (toLowerCase x))
      \<or> (\<exists>x. description c = Some x \<and> sublist term (toLowerCase x))
      \<or> (\<exists>x. dataset c ''tags'' = Str x \<and> sublist term (toLowerCase x)))
   \<and> filteredCourses (handleSearch s searchTerm)
       = filter (\<lambda>c. trim (toLowerCase searchTerm) = []
                      \<or> (\<exists>x. title c = Some x
                              \<and> sublist (trim (toLowerCase searchTerm)) (toLowerCase x))
                      \<or> (\<exists>x. description c = Some x
                              \<and> sublist (trim (toLowerCase searchTerm)) (toLowerCase x))
                      \<or> (\<exists>x. dataset c ''tags'' = Str x
                              \<and> sublist (trim (toLowerCase searchTerm)) (toLowerCase x)))
           (if trim (toLowerCase searchTerm) = [] then filteredCourses (applyFilters s)
            else filteredCourses s)
   \<and> filteredCourses (handleSearch (constructor [english_business] input) ''bus'')
       = [english_business]
   \<and> filteredCourses (handleSearch (constructor [english_business] input) ''span'') = []
   \<and> filteredCourses (handleSearch (constructor [grammarCard, spanishCard] input) ''deutsch'')
       = [grammarCard]
   \<and> filteredCourses (handleSearch (constructor [grammarCard, spanishCard] input) ''Course'')
       = [grammarCard]
   \<and> filteredCourses (handleSearch (constructor [grammarCard, spanishCard] input) '' WRITING '')
       = [grammarCard]"
proof (intro conjI)
  show "searchEntry term c \<longleftrightarrow>
      term = []
      \<or> (\<exists>x. title c = Some x \<and> sublist term (toLowerCase x))
      \<or> (\<exists>x. description c = Some x \<and> sublist term (toLowerCase x))
      \<or> (\<exists>x. dataset c ''tags'' = Str x \<and> sublist term (toLowerCase x))"
    by (rule searchEntry_lowercase_substring)
next
  let ?norm = "trim (toLowerCase searchTerm)"
  let ?test = "\<lambda>c. ?norm = []
                      \<or> (\<exists>x. title c = Some x \<and> sublist ?norm (toLowerCase x))
                      \<or> (\<exists>x. description c = Some x \<and> sublist ?norm (toLowerCase x))
                      \<or> (\<exists>x. dataset c ''tags'' = Str x \<and> sublist ?norm (toLowerCase x))"
  show "filteredCourses (handleSearch s searchTerm)
       = filter ?test (if ?norm = [] then filteredCourses (applyFilters s) else filteredCourses s)"
  proof (cases "?norm = []")
    case True
    then show ?thesis
      by (simp add: handleSearch_def Let_def)
  next
    case False
    then have "filteredCourses (handleSearch s searchTerm)
        = filter (searchEntry ?norm) (filteredCourses s)"
      by (simp add: handleSearch_def Let_def)
    also have "\<dots> = filter ?test (filteredCourses s)"
      by (rule filter_cong [OF refl]) (rule searchEntry_lowercase_substring)
    finally show ?thesis
      using False by simp
  qed
next
  have bus: "trim (toLowerCase ''bus'') = ''bus''" by code_simp
  have span: "trim (toLowerCase ''span'') = ''span''" by code_simp
  have m1: "searchEntry ''bus'' english_business" by code_simp
  have m2: "\<not> searchEntry ''span'' english_business" by code_simp
  have fc: "filteredCourses (constructor [english_business] input) = [english_business]"
    by (simp add: constructor_def loadCourses_def)
  show "filteredCourses (handleSearch (constructor [english_business] input) ''bus'') = [english_business]"
    using m1 by (simp add: handleSearch_def Let_def bus fc)
  show "filteredCourses (handleSearch (constructor [english_business] input) ''span'') = []"
    using m2 by (simp add: handleSearch_def Let_def span fc)
next
  have deutsch: "trim (toLowerCase ''deutsch'') = ''deutsch''" by code_simp
  have course: "trim (toLowerCase ''Course'') = ''course''" by code_simp
  have writing: "trim (toLowerCase '' WRITING '') = ''writing''" by code_simp
  have g1: "searchEntry ''deutsch'' grammarCard \<and> \<not> searchEntry ''deutsch'' spanishCard"
    by code_simp
  have g2: "searchEntry ''course'' grammarCard \<and> \<not> searchEntry ''course'' spanishCard"
    by code_simp
  have g3: "searchEntry ''writing'' grammarCard \<and> \<not> searchEntry ''writing'' spanishCard"
    by code_simp
  have fc: "filteredCourses (constructor [grammarCard, spanishCard] input)
      = [grammarCard, spanishCard]"
    by (simp add: constructor_def loadCourses_def)
  show "filteredCourses (handleSearch (constructor [grammarCard, spanishCard] input) ''deutsch'')
       = [grammarCard]"
    using g1 by (simp add: handleSearch_def Let_def deutsch fc)
  show "filteredCourses (handleSearch (constructor [grammarCard, spanishCard] input) ''Course'')
       = [grammarCard]"
    using g2 by (simp add: handleSearch_def Let_def course fc)
  show "filteredCourses (handleSearch (constructor [grammarCard, spanishCard] input) '' WRITING '')
       = [grammarCard]"
    using g3 by (simp add: handleSearch_def Let_def writing fc)
qed

text \<open>
  Claim C1. The invariant of the specification does not hold of the code. After the
  search input receives \<^verbatim>\<open>eng\<close> and a filter is then set, by a call or by a
  click, \<open>applyFilters\<close> recomputes the filtered list from the filters alone, while
  the term is still in the search input: the list holds cards that do not match the
  term.
\<close>

theorem search_term_dropped_by_filter_update:
  "filteredCourses
      (run (constructor [englishCard, spanishCard] (Some []))
         [SearchInput ''eng'', UpdateFilter ''level'' (Str ''all'')])
     = [englishCard, spanishCard]
   \<and> searchInput
      (run (constructor [englishCard, spanishCard] (Some []))
         [SearchInput ''eng'', UpdateFilter ''level'' (Str ''all'')])
     = Some ''eng''
   \<and> visibleBySpec
      (run (constructor [englishCard, spanishCard] (Some []))
         [SearchInput ''eng'', UpdateFilter ''level'' (Str ''all'')])
     = [englishCard]
   \<and> filteredCourses
      (run (constructor [englishCard, spanishCard] (Some []))
         [SearchInput ''eng'', FilterClick (Some ''level'') (Some ''advanced'')])
     = [spanishCard]
   \<and> visibleBySpec
      (run (constructor [englishCard, spanishCard] (Some []))
         [SearchInput ''eng'', FilterClick (Some ''level'') (Some ''advanced'')])
     = []"
  by code_simp

text \<open>
  The same defect in \<open>handleSearch\<close>: a second term typed over a first is tested on
  the list the first left, not on the list that matches the filters. After
  \<^verbatim>\<open>eng\<close> and then \<^verbatim>\<open>spa\<close> the filtered list is empty, although the
  Spanish card matches the filters and the term.
\<close>

lemma second_search_filters_the_first_result:
  "filteredCourses
      (run (constructor [englishCard, spanishCard] (Some []))
         [SearchInput ''eng'', SearchInput ''spa'']) = []
   \<and> visibleBySpec
      (run (constructor [englishCard, spanishCard] (Some []))
         [SearchInput ''eng'', SearchInput ''spa'']) = [spanishCard]"
  by code_simp

section \<open>Clearing\<close>

text \<open>
  Claim C5. \<open>clearAllFilters\<close> twice is \<open>clearAllFilters\<close> once. After it every
  entry of the filters is all, under the keys it had (so the filters are those of the
  constructor when the keys are the five of the constructor), the search input, if the
  page has one, is empty, and the filtered list is the list of all courses.
\<close>

theorem clear_idempotent_and_initial:
  "clearAllFilters (clearAllFilters s) = clearAllFilters s
   \<and> list_all (\<lambda>e. snd e = Str ''all'') (filters (clearAllFilters s))
   \<and> map fst (filters (clearAllFilters s)) = map fst (filters s)
   \<and> (map fst (filters s) = map fst initialFilters \<longrightarrow> filters (clearAllFilters s) = initialFilters)
   \<and> (searchInput (clearAllFilters s) = None \<or> searchInput (clearAllFilters s) = Some [])
   \<and> currentTerm (clearAllFilters s) = []
   \<and> filteredCourses (clearAllFilters s) = courses s
   \<and> courses (clearAllFilters s) = courses s"
proof (intro conjI impI)
  show "clearAllFilters (clearAllFilters s) = clearAllFilters s"
    by (simp add: clearAllFilters_def clear_twice split: option.splits)
  show "list_all (\<lambda>e. snd e = Str ''all'') (filters (clearAllFilters s))"
    by (simp add: clearAllFilters_def clear_all_values)
  show "map fst (filters (clearAllFilters s)) = map fst (filters s)"
    by (simp add: clearAllFilters_def clear_keys del: map_map)
  show "searchInput (clearAllFilters s) = None \<or> searchInput (clearAllFilters s) = Some []"
    by (simp add: clearAllFilters_def split: option.splits)
  show "currentTerm (clearAllFilters s) = []"
    by (rule currentTerm_clear)
  show "filteredCourses (clearAllFilters s) = courses s"
    by (simp add: clearAllFilters_def)
  show "courses (clearAllFilters s) = courses s"
    by (simp add: clearAllFilters_def)
next
  assume "map fst (filters s) = map fst initialFilters"
  then show "filters (clearAllFilters s) = initialFilters"
    by (simp add: clearAllFilters_def clear_five)
qed

theorem clear_idempotent_and_initial_witness:
  "map fst (filters (run (constructor threeLevels (Some []))
                       [SearchInput ''x'', UpdateFilter ''level'' (Str ''beginner'')]))
     = map fst initialFilters
   \<and> clearAllFilters (run (constructor threeLevels (Some []))
                         [SearchInput ''x'', UpdateFilter ''level'' (Str ''beginner'')])
     = constructor threeLevels (Some [])"
proof -
  let ?s = "run (constructor threeLevels (Some []))
              [SearchInput ''x'', UpdateFilter ''level'' (Str ''beginner'')]"
  have h: "map fst (filters ?s) = map fst initialFilters"
    by code_simp
  have f: "filters (clearAllFilters ?s) = initialFilters"
    using clear_idempotent_and_initial [of ?s] h by blast
  have rest: "clearAllFilters ?s
      = (constructor threeLevels (Some []))\<lparr>filters := filters (clearAllFilters ?s)\<rparr>"
    by code_simp
  have init: "(constructor threeLevels (Some []))\<lparr>filters := initialFilters\<rparr>
      = constructor threeLevels (Some [])"
    by (simp add: constructor_def loadCourses_def)
  from h f rest init show ?thesis
    by (simp only: simp_thms)
qed

end
